theory Spec2Isabelle
  imports Main "HOL-Library.Multiset"
begin

section \<open>Data model of the post routes (src/routes/api/posts.js)\<close>

text \<open>
  An ObjectId is represented by the string that \<^verbatim>\<open>toString()\<close> renders. The caller
  identifier \<^verbatim>\<open>req.user.id\<close> is such a rendering (the auth middleware issues it), so the
  handlers' comparisons \<^verbatim>\<open>x.user.toString() !== req.user.id\<close> are string comparisons.
\<close>

type_synonym oid = string

text \<open>
  Modelled from the spec: the schemas models/Post.js and models/User.js are not part of
  the sources. The records below carry the fields the handlers read and write and the
  store-assigned fields the spec's data model lists (identifier, creation timestamp).
\<close>

record like =
  like_id :: oid
  like_user :: oid

record comment =
  comment_id :: oid
  comment_text :: string
  comment_name :: string
  comment_avatar :: string
  comment_user :: oid
  comment_date :: nat

record post =
  post_id :: oid
  post_text :: string
  post_name :: string
  post_avatar :: string
  post_user :: oid
  post_date :: nat
  post_likes :: "like list"
  post_comments :: "comment list"

record user =
  user_name :: string
  user_avatar :: string

text \<open>The parts of \<^verbatim>\<open>req\<close> the handlers read.\<close>

record req =
  user_id :: oid
  post_id_param :: string
  comment_id_param :: string
  body_text :: "string option"

text \<open>
  What a handler takes from its surroundings: how the store casts a string to an
  ObjectId (\<open>None\<close> when the string is not a well-formed reference), the user directory,
  the identifier and the timestamp the store assigns to a document created by this
  request, and what the comment schema makes of a value that is not a comment
  (\<open>None\<close> when the document then fails validation).
\<close>

record ctx =
  cast_oid :: "string \<Rightarrow> oid option"
  find_user :: "oid \<Rightarrow> user option"
  new_oid :: oid
  now :: nat
  res_as_comment :: "comment option"

datatype body =
    Msg string
  | MsgPost string post
  | PostBody post
  | Posts "post list"
  | Likes "like list"
  | Comments "comment list"
  | Errors "string list"

datatype response = Json nat body | Send nat string

datatype exn = CastError | TypeError | DuplicateKey | ValidationError | HeadersSent

datatype effect = Sent response | SendFailed response | Saved post | Inserted post | Removed post

record hstate =
  db :: "post list"
  log :: "effect list"

type_synonym 'a io = "hstate \<Rightarrow> (exn + 'a) \<times> hstate"

section \<open>Control flow: sequencing, throw, try/catch\<close>

definition return_io :: "'a \<Rightarrow> 'a io" where
  "return_io x s = (Inr x, s)"

definition throw :: "exn \<Rightarrow> 'a io" where
  "throw e s = (Inl e, s)"

definition bind_io :: "'a io \<Rightarrow> ('a \<Rightarrow> 'b io) \<Rightarrow> 'b io" where
  "bind_io m f s = (case m s of (Inl e, s') \<Rightarrow> (Inl e, s') | (Inr x, s') \<Rightarrow> f x s')"

definition try_catch :: "unit io \<Rightarrow> (exn \<Rightarrow> unit io) \<Rightarrow> unit io" where
  "try_catch m h s = (case m s of (Inl e, s') \<Rightarrow> h e s' | (Inr x, s') \<Rightarrow> (Inr x, s'))"

section \<open>The response object\<close>

fun is_Sent :: "effect \<Rightarrow> bool" where
  "is_Sent (Sent r) = True"
| "is_Sent e = False"

definition headers_sent :: "hstate \<Rightarrow> bool" where
  "headers_sent s = (find is_Sent (log s) \<noteq> None)"

text \<open>
  \<^verbatim>\<open>res.status(n).json(b)\<close>, \<^verbatim>\<open>res.json(b)\<close> and \<^verbatim>\<open>res.status(n).send(t)\<close>. The first
  response of a request is delivered; a later one throws (headers already sent) and
  nothing more reaches the client.
\<close>

definition respond :: "response \<Rightarrow> unit io" where
  "respond r s =
     (if headers_sent s then (Inl HeadersSent, s\<lparr>log := log s @ [SendFailed r]\<rparr>)
      else (Inr (), s\<lparr>log := log s @ [Sent r]\<rparr>))"

definition not_found :: response where
  "not_found = Json 404 (Msg ''Post not found'')"

definition unauthorized :: response where
  "unauthorized = Json 401 (Msg ''User not authorized'')"

definition server_error :: response where
  "server_error = Send 500 ''Server Error''"

text \<open>The catch block of the id-bearing handlers, and that of create and list.\<close>

definition catch_oid :: "exn \<Rightarrow> unit io" where
  "catch_oid err = (if err = CastError then respond not_found else respond server_error)"

definition catch_500 :: "exn \<Rightarrow> unit io" where
  "catch_500 err = respond server_error"

section \<open>The store\<close>

text \<open>\<^verbatim>\<open>Post.findById(id)\<close>: a cast error on a malformed id, else the document or null.\<close>

definition findById :: "ctx \<Rightarrow> string \<Rightarrow> post option io" where
  "findById cx i s =
     (case cast_oid cx i of
        None \<Rightarrow> (Inl CastError, s)
      | Some k \<Rightarrow> (Inr (find (\<lambda>p. post_id p = k) (db s)), s))"

text \<open>\<^verbatim>\<open>User.findById(req.user.id).select('-password')\<close>: the user or null.\<close>

definition findUser :: "ctx \<Rightarrow> oid \<Rightarrow> user option io" where
  "findUser cx i s = (Inr (find_user cx i), s)"

text \<open>
  \<^verbatim>\<open>post.save()\<close> of a loaded document writes it over the stored one with its id. A
  handler only saves a document it has just loaded, so the empty case is never reached.
\<close>

fun replace :: "post \<Rightarrow> post list \<Rightarrow> post list" where
  "replace p [] = []"
| "replace p (q # qs) = (if post_id q = post_id p then p # qs else q # replace p qs)"

definition save :: "post \<Rightarrow> unit io" where
  "save p s = (Inr (), s\<lparr>db := replace p (db s), log := log s @ [Saved p]\<rparr>)"

text \<open>\<^verbatim>\<open>newPost.save()\<close> of a new document inserts it; a duplicate identifier is refused.\<close>

definition insert_new :: "post \<Rightarrow> unit io" where
  "insert_new p s =
     (if find (\<lambda>q. post_id q = post_id p) (db s) \<noteq> None then (Inl DuplicateKey, s)
      else (Inr (), s\<lparr>db := db s @ [p], log := log s @ [Inserted p]\<rparr>))"

text \<open>\<^verbatim>\<open>post.remove()\<close>.\<close>

definition remove :: "post \<Rightarrow> unit io" where
  "remove p s =
     (Inr (), s\<lparr>db := filter (\<lambda>q. post_id q \<noteq> post_id p) (db s), log := log s @ [Removed p]\<rparr>)"

text \<open>\<^verbatim>\<open>Post.find({}).sort({ date: -1 })\<close>: every document, newest first.\<close>

fun insert_desc :: "post \<Rightarrow> post list \<Rightarrow> post list" where
  "insert_desc p [] = [p]"
| "insert_desc p (q # qs) = (if post_date q \<le> post_date p then p # q # qs else q # insert_desc p qs)"

fun sort_desc :: "post list \<Rightarrow> post list" where
  "sort_desc [] = []"
| "sort_desc (p # ps) = insert_desc p (sort_desc ps)"

definition find_all_sorted :: "post list io" where
  "find_all_sorted s = (Inr (sort_desc (db s)), s)"

section \<open>Input validation and array primitives\<close>

text \<open>\<^verbatim>\<open>check('text', 'Text is required').not().isEmpty()\<close> and \<^verbatim>\<open>errors.array()\<close>.\<close>

definition validationResult :: "req \<Rightarrow> string list" where
  "validationResult rq =
     (case body_text rq of
        None \<Rightarrow> [''Text is required'']
      | Some t \<Rightarrow> if t = [] then [''Text is required''] else [])"

definition the_text :: "req \<Rightarrow> string" where
  "the_text rq = (case body_text rq of None \<Rightarrow> [] | Some t \<Rightarrow> t)"

text \<open>\<^verbatim>\<open>Array.prototype.indexOf\<close>: \<open>-1\<close> when the value is absent.\<close>

fun indexOf :: "'a \<Rightarrow> 'a list \<Rightarrow> int" where
  "indexOf x [] = - 1"
| "indexOf x (y # ys) =
     (if y = x then 0 else (let i = indexOf x ys in if i < 0 then - 1 else i + 1))"

text \<open>\<^verbatim>\<open>xs.splice(start, 1)\<close>: a negative start counts from the end.\<close>

definition splice1 :: "int \<Rightarrow> 'a list \<Rightarrow> 'a list" where
  "splice1 start xs =
     (let n = int (length xs);
          k = (if start < 0 then max (n + start) 0 else min start n)
      in take (nat k) xs @ drop (nat k + 1) xs)"

section \<open>The route handlers\<close>

text \<open>POST api/posts (lines 15-42).\<close>

definition create_post :: "ctx \<Rightarrow> req \<Rightarrow> unit io" where
  "create_post cx rq =
     (if validationResult rq \<noteq> [] then respond (Json 400 (Errors (validationResult rq)))
      else try_catch
        (bind_io (findUser cx (user_id rq)) (\<lambda>usr.
           case usr of
             None \<Rightarrow> throw TypeError
           | Some u \<Rightarrow>
               let newPost = \<lparr>post_id = new_oid cx, post_text = the_text rq,
                     post_name = user_name u, post_avatar = user_avatar u,
                     post_user = user_id rq, post_date = now cx,
                     post_likes = [], post_comments = []\<rparr>
               in bind_io (insert_new newPost) (\<lambda>_. respond (Json 200 (PostBody newPost)))))
        catch_500)"

text \<open>GET api/posts (lines 49-57).\<close>

definition list_posts :: "ctx \<Rightarrow> req \<Rightarrow> unit io" where
  "list_posts cx rq =
     try_catch (bind_io find_all_sorted (\<lambda>posts. respond (Json 200 (Posts posts)))) catch_500"

text \<open>GET api/posts/:post_id (lines 64-75).\<close>

definition get_post :: "ctx \<Rightarrow> req \<Rightarrow> unit io" where
  "get_post cx rq =
     try_catch
       (bind_io (findById cx (post_id_param rq)) (\<lambda>found.
          case found of
            None \<Rightarrow> respond not_found
          | Some p \<Rightarrow> respond (Json 200 (PostBody p))))
       catch_oid"

text \<open>DELETE api/posts/:post_id (lines 82-97).\<close>

definition delete_post :: "ctx \<Rightarrow> req \<Rightarrow> unit io" where
  "delete_post cx rq =
     try_catch
       (bind_io (findById cx (post_id_param rq)) (\<lambda>found.
          case found of
            None \<Rightarrow> respond not_found
          | Some p \<Rightarrow>
              if post_user p \<noteq> user_id rq then respond unauthorized
              else bind_io (remove p) (\<lambda>_. respond (Json 200 (MsgPost ''Post removed'' p)))))
       catch_oid"

text \<open>PUT api/posts/:post_id (lines 104-129).\<close>

definition update_post :: "ctx \<Rightarrow> req \<Rightarrow> unit io" where
  "update_post cx rq =
     (if validationResult rq \<noteq> [] then respond (Json 400 (Errors (validationResult rq)))
      else try_catch
        (bind_io (findById cx (post_id_param rq)) (\<lambda>found.
           case found of
             None \<Rightarrow> respond not_found
           | Some p \<Rightarrow>
               if post_user p \<noteq> user_id rq then respond unauthorized
               else let p' = p\<lparr>post_text := the_text rq\<rparr>
                    in bind_io (save p') (\<lambda>_. respond (Json 200 (MsgPost ''Post updated'' p')))))
        catch_oid)"

text \<open>PUT api/posts/:post_id/like (lines 136-157).\<close>

definition like_post :: "ctx \<Rightarrow> req \<Rightarrow> unit io" where
  "like_post cx rq =
     try_catch
       (bind_io (findById cx (post_id_param rq)) (\<lambda>found.
          case found of
            None \<Rightarrow> respond not_found
          | Some p \<Rightarrow>
              if length (filter (\<lambda>l. like_user l = user_id rq) (post_likes p)) > 0
              then respond (Json 400 (Msg ''Post already liked''))
              else let p' = p\<lparr>post_likes :=
                              \<lparr>like_id = new_oid cx, like_user = user_id rq\<rparr> # post_likes p\<rparr>
                   in bind_io (save p') (\<lambda>_. respond (Json 200 (Likes (post_likes p'))))))
       catch_oid"

text \<open>PUT api/posts/:post_id/unlike (lines 164-188).\<close>

definition unlike_post :: "ctx \<Rightarrow> req \<Rightarrow> unit io" where
  "unlike_post cx rq =
     try_catch
       (bind_io (findById cx (post_id_param rq)) (\<lambda>found.
          case found of
            None \<Rightarrow> respond not_found
          | Some p \<Rightarrow>
              if length (filter (\<lambda>l. like_user l = user_id rq) (post_likes p)) = 0
              then respond (Json 400 (Msg ''Post has not yet been liked''))
              else let removeIndex = indexOf (user_id rq) (map like_user (post_likes p));
                       p' = p\<lparr>post_likes := splice1 removeIndex (post_likes p)\<rparr>
                   in bind_io (save p') (\<lambda>_. respond (Json 200 (Likes (post_likes p'))))))
       catch_oid"

text \<open>POST api/posts/:post_id/comments (lines 195-228).\<close>

definition add_comment :: "ctx \<Rightarrow> req \<Rightarrow> unit io" where
  "add_comment cx rq =
     (if validationResult rq \<noteq> [] then respond (Json 400 (Errors (validationResult rq)))
      else try_catch
        (bind_io (findUser cx (user_id rq)) (\<lambda>usr.
         bind_io (findById cx (post_id_param rq)) (\<lambda>found.
           case found of
             None \<Rightarrow> respond not_found
           | Some p \<Rightarrow>
               (case usr of
                  None \<Rightarrow> throw TypeError
                | Some u \<Rightarrow>
                    let newComment = \<lparr>comment_id = new_oid cx, comment_text = the_text rq,
                          comment_name = user_name u, comment_avatar = user_avatar u,
                          comment_user = user_id rq, comment_date = now cx\<rparr>;
                        p' = p\<lparr>post_comments := newComment # post_comments p\<rparr>
                    in bind_io (save p') (\<lambda>_. respond (Json 200 (Comments (post_comments p'))))))))
        catch_oid)"

text \<open>
  PUT api/posts/:post_id/comments/:comment_id (lines 235-268). The callback of
  \<^verbatim>\<open>post.comments.map\<close> returns the comment, or, for a matched comment of another
  author, what \<^verbatim>\<open>res.status(401).json(...)\<close> returns: the response object itself.
\<close>

datatype elem = Doc comment | Res

fun update_map :: "req \<Rightarrow> comment list \<Rightarrow> elem list io" where
  "update_map rq [] = return_io []"
| "update_map rq (c # cs) =
     (if comment_id c = comment_id_param rq then
        (if comment_user c \<noteq> user_id rq then
           bind_io (respond unauthorized) (\<lambda>_.
           bind_io (update_map rq cs) (\<lambda>rest. return_io (Res # rest)))
         else bind_io (update_map rq cs) (\<lambda>rest.
                return_io (Doc (c\<lparr>comment_text := the_text rq\<rparr>) # rest)))
      else bind_io (update_map rq cs) (\<lambda>rest. return_io (Doc c # rest)))"

text \<open>
  \<^verbatim>\<open>post.comments = newCommentArray\<close> followed by validation at \<^verbatim>\<open>post.save()\<close>: an
  element that is not a comment is cast by the comment schema, and the save throws
  when the cast document is invalid.
\<close>

fun cast_comments :: "ctx \<Rightarrow> elem list \<Rightarrow> comment list io" where
  "cast_comments cx [] = return_io []"
| "cast_comments cx (Doc c # es) = bind_io (cast_comments cx es) (\<lambda>rest. return_io (c # rest))"
| "cast_comments cx (Res # es) =
     (case res_as_comment cx of
        None \<Rightarrow> throw ValidationError
      | Some c \<Rightarrow> bind_io (cast_comments cx es) (\<lambda>rest. return_io (c # rest)))"

definition update_comment :: "ctx \<Rightarrow> req \<Rightarrow> unit io" where
  "update_comment cx rq =
     (if validationResult rq \<noteq> [] then respond (Json 400 (Errors (validationResult rq)))
      else try_catch
        (bind_io (findById cx (post_id_param rq)) (\<lambda>found.
           case found of
             None \<Rightarrow> respond not_found
           | Some p \<Rightarrow>
               bind_io (update_map rq (post_comments p)) (\<lambda>newCommentArray.
               bind_io (cast_comments cx newCommentArray) (\<lambda>cs.
                 let p' = p\<lparr>post_comments := cs\<rparr>
                 in bind_io (save p') (\<lambda>_. respond (Json 200 (Comments (post_comments p'))))))))
        catch_oid)"

text \<open>
  DELETE api/posts/:post_id/comments/:comment_id (lines 275-322). The callback of
  \<^verbatim>\<open>post.comments.filter\<close> returns the response object for a matched comment of another
  author; it is truthy, so the comment is kept.
\<close>

fun delete_filter :: "req \<Rightarrow> comment list \<Rightarrow> comment list io" where
  "delete_filter rq [] = return_io []"
| "delete_filter rq (c # cs) =
     (if comment_id c = comment_id_param rq then
        (if comment_user c \<noteq> user_id rq then
           bind_io (respond unauthorized) (\<lambda>_.
           bind_io (delete_filter rq cs) (\<lambda>rest. return_io (c # rest)))
         else delete_filter rq cs)
      else bind_io (delete_filter rq cs) (\<lambda>rest. return_io (c # rest)))"

definition delete_comment :: "ctx \<Rightarrow> req \<Rightarrow> unit io" where
  "delete_comment cx rq =
     try_catch
       (bind_io (findById cx (post_id_param rq)) (\<lambda>found.
          case found of
            None \<Rightarrow> respond not_found
          | Some p \<Rightarrow>
              bind_io (delete_filter rq (post_comments p)) (\<lambda>newCommentArray.
                let p' = p\<lparr>post_comments := newCommentArray\<rparr>
                in bind_io (save p') (\<lambda>_. respond (Json 200 (Comments (post_comments p')))))))
       catch_oid"

section \<open>Running a request\<close>

datatype route =
    CreatePost | ListPosts | GetPost | DeletePost | UpdatePost
  | LikePost | UnlikePost | AddComment | UpdateComment | DeleteComment

fun handler :: "route \<Rightarrow> ctx \<Rightarrow> req \<Rightarrow> unit io" where
  "handler CreatePost = create_post"
| "handler ListPosts = list_posts"
| "handler GetPost = get_post"
| "handler DeletePost = delete_post"
| "handler UpdatePost = update_post"
| "handler LikePost = like_post"
| "handler UnlikePost = unlike_post"
| "handler AddComment = add_comment"
| "handler UpdateComment = update_comment"
| "handler DeleteComment = delete_comment"

text \<open>A request starts on the stored posts with nothing sent.\<close>

definition run :: "unit io \<Rightarrow> post list \<Rightarrow> (exn + unit) \<times> hstate" where
  "run h d = h \<lparr>db = d, log = []\<rparr>"

text \<open>The response the client receives: the first one sent.\<close>

fun sent_of :: "effect \<Rightarrow> response option" where
  "sent_of (Sent r) = Some r"
| "sent_of e = None"

definition response_of :: "(exn + unit) \<times> hstate \<Rightarrow> response option" where
  "response_of out = (case find is_Sent (log (snd out)) of None \<Rightarrow> None | Some e \<Rightarrow> sent_of e)"

definition db_of :: "(exn + unit) \<times> hstate \<Rightarrow> post list" where
  "db_of out = db (snd out)"

definition log_of :: "(exn + unit) \<times> hstate \<Rightarrow> effect list" where
  "log_of out = log (snd out)"

definition step :: "route \<Rightarrow> ctx \<Rightarrow> req \<Rightarrow> post list \<Rightarrow> post list" where
  "step r cx rq d = db_of (run (handler r cx rq) d)"

text \<open>The stores that requests can produce, starting from the empty collection.\<close>

inductive reachable :: "post list \<Rightarrow> bool" where
  reachable_init: "reachable []"
| reachable_step: "reachable d \<Longrightarrow> reachable (step r cx rq d)"

section \<open>Invariants and the changes a request makes to the store\<close>

text \<open>A post's like list has at most one entry per author identifier.\<close>

definition likes_ok :: "post \<Rightarrow> bool" where
  "likes_ok p = distinct (map like_user (post_likes p))"

definition store_ok :: "post list \<Rightarrow> bool" where
  "store_ok d = list_all likes_ok d"

text \<open>Every like entry of the store, with the post that holds it.\<close>

definition like_entries :: "post list \<Rightarrow> (oid \<times> like) list" where
  "like_entries d = concat (map (\<lambda>p. map (Pair (post_id p)) (post_likes p)) d)"

text \<open>What a request may do to the store; only the flagged change adds a like.\<close>

inductive change :: "bool \<Rightarrow> post list \<Rightarrow> post list \<Rightarrow> bool" where
  change_none: "change b d d"
| change_created: "post_likes p = [] \<Longrightarrow> change b d (d @ [p])"
| change_removed: "change b d (filter (\<lambda>q. post_id q \<noteq> k) d)"
| change_text:
    "find (\<lambda>q. post_id q = k) d = Some p \<Longrightarrow> change b d (replace (p\<lparr>post_text := t\<rparr>) d)"
| change_comments:
    "find (\<lambda>q. post_id q = k) d = Some p \<Longrightarrow> change b d (replace (p\<lparr>post_comments := cs\<rparr>) d)"
| change_unliked:
    "find (\<lambda>q. post_id q = k) d = Some p \<Longrightarrow>
     change b d (replace (p\<lparr>post_likes := splice1 i (post_likes p)\<rparr>) d)"
| change_liked:
    "find (\<lambda>q. post_id q = k) d = Some p \<Longrightarrow> like_user l \<notin> like_user ` set (post_likes p) \<Longrightarrow>
     change True d (replace (p\<lparr>post_likes := l # post_likes p\<rparr>) d)"

section \<open>An example store\<close>

text \<open>
  A cast that accepts 24 hexadecimal digits and renders them in lower case, two users,
  and the store after Ann has created a post and commented on it and Bob has liked it.
\<close>

definition hex_lower :: "char \<Rightarrow> char option" where
  "hex_lower c =
     (if c \<in> set ''0123456789abcdef'' then Some c
      else if c = CHR ''A'' then Some CHR ''a''
      else if c = CHR ''B'' then Some CHR ''b''
      else if c = CHR ''C'' then Some CHR ''c''
      else if c = CHR ''D'' then Some CHR ''d''
      else if c = CHR ''E'' then Some CHR ''e''
      else if c = CHR ''F'' then Some CHR ''f''
      else None)"

definition ex_cast :: "string \<Rightarrow> oid option" where
  "ex_cast s = (if length s = 24 then those (map hex_lower s) else None)"

definition ann :: oid where "ann = ''5f00000000000000000000a1''"
definition bob :: oid where "bob = ''5f00000000000000000000b2''"
definition post_c3 :: oid where "post_c3 = ''5f00000000000000000000c3''"
definition comment_d4 :: oid where "comment_d4 = ''5f00000000000000000000d4''"
definition like_e5 :: oid where "like_e5 = ''5f00000000000000000000e5''"

definition ex_dir :: "oid \<Rightarrow> user option" where
  "ex_dir i =
     (if i = ann then Some \<lparr>user_name = ''Ann'', user_avatar = ''ann.png''\<rparr>
      else if i = bob then Some \<lparr>user_name = ''Bob'', user_avatar = ''bob.png''\<rparr>
      else None)"

definition ex_ctx :: "oid \<Rightarrow> nat \<Rightarrow> ctx" where
  "ex_ctx i t = \<lparr>cast_oid = ex_cast, find_user = ex_dir, new_oid = i, now = t,
                 res_as_comment = None\<rparr>"

definition ex_req :: "oid \<Rightarrow> string \<Rightarrow> req" where
  "ex_req caller t = \<lparr>user_id = caller, post_id_param = post_c3,
                       comment_id_param = comment_d4, body_text = Some t\<rparr>"

definition ex_comment :: comment where
  "ex_comment = \<lparr>comment_id = comment_d4, comment_text = ''first'', comment_name = ''Ann'',
                  comment_avatar = ''ann.png'', comment_user = ann, comment_date = 2000\<rparr>"

definition ex_like :: like where
  "ex_like = \<lparr>like_id = like_e5, like_user = bob\<rparr>"

definition ex_post :: post where
  "ex_post = \<lparr>post_id = post_c3, post_text = ''hello'', post_name = ''Ann'',
               post_avatar = ''ann.png'', post_user = ann, post_date = 1000,
               post_likes = [ex_like], post_comments = [ex_comment]\<rparr>"

definition ex_db :: "post list" where
  "ex_db = [ex_post]"

text \<open>
  The same post after Carol, then Bob, then Ann have liked it: Bob's like lies between
  the two others.
\<close>

definition carol :: oid where "carol = ''5f00000000000000000000c7''"

definition ex_like_ann :: like where
  "ex_like_ann = \<lparr>like_id = ''5f00000000000000000000e6'', like_user = ann\<rparr>"

definition ex_like_carol :: like where
  "ex_like_carol = \<lparr>like_id = ''5f00000000000000000000e4'', like_user = carol\<rparr>"

definition ex_post3 :: post where
  "ex_post3 = ex_post\<lparr>post_likes := [ex_like_ann, ex_like, ex_like_carol]\<rparr>"

definition ex_db3 :: "post list" where
  "ex_db3 = [ex_post3]"

section \<open>Unfolding sets\<close>

lemmas io_defs = bind_io_def try_catch_def return_io_def throw_def respond_def headers_sent_def
  findById_def findUser_def save_def insert_new_def remove_def find_all_sorted_def
  catch_oid_def catch_500_def

lemmas out_defs = run_def response_of_def db_of_def log_of_def

lemmas ex_ids = ann_def bob_def post_c3_def comment_d4_def like_e5_def

lemmas ex_defs = ex_ctx_def ex_req_def ex_comment_def ex_like_def ex_post_def ex_db_def
  ex_dir_def validationResult_def the_text_def

section \<open>The example store\<close>

lemma ex_cast_ids:
  "ex_cast ann = Some ann" "ex_cast bob = Some bob" "ex_cast post_c3 = Some post_c3"
  by (simp_all add: ex_cast_def hex_lower_def ex_ids)

lemma ex_cast_upper: "ex_cast ''5F00000000000000000000C3'' = Some post_c3"
  by (simp add: ex_cast_def hex_lower_def ex_ids)

lemma ex_cast_bad: "ex_cast ''not-an-id'' = None"
  by (simp add: ex_cast_def)

lemma ex_ids_distinct: "ann \<noteq> bob" "bob \<noteq> ann"
  by (simp_all add: ex_ids)

lemma ex_db_reached:
  "step LikePost (ex_ctx like_e5 3000) (ex_req bob ''x'')
     (step AddComment (ex_ctx comment_d4 2000) (ex_req ann ''first'')
       (step CreatePost (ex_ctx post_c3 1000) (ex_req ann ''hello'') [])) = ex_db"
  by (simp add: step_def create_post_def add_comment_def like_post_def io_defs out_defs ex_defs
      ex_cast_ids ex_ids_distinct Let_def)

lemma ex_db_reachable: "reachable ex_db"
  using reachable_step[OF reachable_step[OF reachable_step[OF reachable_init]]] ex_db_reached
  by metis

lemma ex_find: "find (\<lambda>q. post_id q = post_c3) ex_db = Some ex_post"
  by (simp add: ex_defs)

section \<open>Store primitives\<close>

lemma find_post_id: "find (\<lambda>q. post_id q = k) d = Some p \<Longrightarrow> post_id p = k"
  by (induction d) (auto split: if_splits)

lemma replace_found_same: "find (\<lambda>q. post_id q = k) d = Some p \<Longrightarrow> replace p d = d"
  by (induction d) (auto split: if_splits dest: find_post_id)

lemma find_replace:
  "find (\<lambda>q. post_id q = k) d = Some p \<Longrightarrow> post_id p' = k \<Longrightarrow>
   find (\<lambda>q. post_id q = k) (replace p' d) = Some p'"
  by (induction d) (auto split: if_splits)

lemma replace_replace:
  "find (\<lambda>q. post_id q = k) d = Some p \<Longrightarrow> post_id p' = k \<Longrightarrow>
   replace p (replace p' d) = d"
  by (induction d) (auto split: if_splits dest: find_post_id)


lemma find_in_set: "find P d = Some p \<Longrightarrow> p \<in> set d"
  by (induction d) (auto split: if_splits)

lemma set_insert_desc: "set (insert_desc p ps) = insert p (set ps)"
  by (induction ps) auto

lemma mset_insert_desc: "mset (insert_desc p ps) = add_mset p (mset ps)"
  by (induction ps) auto

lemma mset_sort_desc: "mset (sort_desc ps) = mset ps"
  by (induction ps) (auto simp: mset_insert_desc)

lemma sorted_insert_desc:
  "sorted_wrt (\<lambda>a b. post_date b \<le> post_date a) ps \<Longrightarrow>
   sorted_wrt (\<lambda>a b. post_date b \<le> post_date a) (insert_desc p ps)"
  by (induction ps) (auto simp: set_insert_desc)

lemma sorted_sort_desc: "sorted_wrt (\<lambda>a b. post_date b \<le> post_date a) (sort_desc ps)"
  by (induction ps) (auto simp: sorted_insert_desc)

lemma valid_text:
  "body_text rq = Some t \<Longrightarrow> t \<noteq> [] \<Longrightarrow> validationResult rq = [] \<and> the_text rq = t"
  by (simp add: validationResult_def the_text_def)

section \<open>Array primitives\<close>

lemma indexOf_first: "x \<notin> set ys \<Longrightarrow> indexOf x (ys @ x # zs) = int (length ys)"
  by (induction ys) (auto simp: Let_def)

lemma splice1_at: "splice1 (int (length ys)) (ys @ l # zs) = ys @ zs"
  by (simp add: splice1_def Let_def)

lemma no_like_filter:
  "u \<notin> like_user ` set ls \<Longrightarrow> filter (\<lambda>l. like_user l = u) ls = []"
  by (induction ls) auto

lemma some_like_filter:
  "u \<in> like_user ` set ls \<Longrightarrow> filter (\<lambda>l. like_user l = u) ls \<noteq> []"
  by (induction ls) auto

lemma one_like_filter:
  "distinct (map like_user ls) \<Longrightarrow> u \<in> like_user ` set ls \<Longrightarrow>
   length (filter (\<lambda>l. like_user l = u) ls) = 1"
  by (induction ls) (auto simp: no_like_filter)

lemma unlike_splice:
  assumes "u \<in> like_user ` set ls"
  shows "\<exists>ys l zs. ls = ys @ l # zs \<and> like_user l = u \<and> u \<notin> like_user ` set ys
           \<and> splice1 (indexOf u (map like_user ls)) ls = ys @ zs"
proof -
  from assms have "\<exists>x \<in> set ls. like_user x = u" by auto
  then obtain ys l zs where s: "ls = ys @ l # zs" "like_user l = u" "\<forall>y \<in> set ys. like_user y \<noteq> u"
    using split_list_first_prop[of ls "\<lambda>x. like_user x = u"] by blast
  have n: "u \<notin> set (map like_user ys)" using s(3) by auto
  have "indexOf u (map like_user ls) = int (length ys)"
    using indexOf_first[OF n, of "map like_user zs"] s by simp
  then have "splice1 (indexOf u (map like_user ls)) ls = ys @ zs"
    using splice1_at[of ys l zs] s(1) by simp
  with s n show ?thesis by auto
qed

lemma distinct_splice1: "distinct (map f xs) \<Longrightarrow> distinct (map f (splice1 i xs))"
proof -
  assume d: "distinct (map f xs)"
  have "distinct (take n (map f xs) @ drop (n + 1) (map f xs))" for n
    using d set_take_disj_set_drop_if_distinct[of "map f xs" n "n + 1"] by simp
  then show ?thesis by (simp add: splice1_def Let_def take_map drop_map)
qed

lemma set_splice1: "set (splice1 i xs) \<subseteq> set xs"
  by (auto simp: splice1_def Let_def dest: in_set_takeD in_set_dropD)

section \<open>The comment callbacks\<close>

lemma update_map_no_match:
  "comment_id_param rq \<notin> comment_id ` set cs \<Longrightarrow> update_map rq cs s = (Inr (map Doc cs), s)"
  by (induction cs) (auto simp: bind_io_def return_io_def)

lemma cast_comments_docs: "cast_comments cx (map Doc cs) s = (Inr cs, s)"
  by (induction cs) (auto simp: bind_io_def return_io_def)

lemma delete_filter_no_match:
  "comment_id_param rq \<notin> comment_id ` set cs \<Longrightarrow> delete_filter rq cs s = (Inr cs, s)"
  by (induction cs) (auto simp: bind_io_def return_io_def)

lemma respond_db: "respond r s = (x, s') \<Longrightarrow> db s' = db s"
  by (auto simp: respond_def split: if_splits)

lemma update_map_db: "update_map rq cs s = (x, s') \<Longrightarrow> db s' = db s"
proof (induction cs arbitrary: s x s')
  case Nil
  then show ?case by (simp add: return_io_def)
next
  case (Cons c cs)
  then show ?case
    by (fastforce simp: bind_io_def return_io_def split: if_splits prod.splits sum.splits
        dest: respond_db)
qed

lemma cast_comments_db: "cast_comments cx es s = (x, s') \<Longrightarrow> db s' = db s"
proof (induction cx es arbitrary: s x s' rule: cast_comments.induct)
  case (1 cx)
  then show ?case by (simp add: return_io_def)
next
  case (2 cx c es)
  then show ?case
    by (fastforce simp: bind_io_def return_io_def split: prod.splits sum.splits)
next
  case (3 cx es)
  then show ?case
    by (fastforce simp: bind_io_def return_io_def throw_def
        split: option.splits prod.splits sum.splits)
qed

lemma delete_filter_db: "delete_filter rq cs s = (x, s') \<Longrightarrow> db s' = db s"
proof (induction cs arbitrary: s x s')
  case Nil
  then show ?case by (simp add: return_io_def)
next
  case (Cons c cs)
  then show ?case
    by (fastforce simp: bind_io_def return_io_def split: if_splits prod.splits sum.splits
        dest: respond_db)
qed

section \<open>The store after a request\<close>

lemma db_respond: "db (snd (respond r s)) = db s"
  by (simp add: respond_def)

lemma db_catch: "db (snd (catch_oid e s)) = db s" "db (snd (catch_500 e s)) = db s"
  by (simp_all add: catch_oid_def catch_500_def db_respond)

lemma db_try:
  "db (snd (try_catch m catch_oid s)) = db (snd (m s))"
  "db (snd (try_catch m catch_500 s)) = db (snd (m s))"
  by (auto simp: try_catch_def db_catch split: prod.splits sum.splits)

lemma db_bind:
  "db (snd (bind_io m f s)) =
     (case m s of (Inl e, s') \<Rightarrow> db s' | (Inr x, s') \<Rightarrow> db (snd (f x s')))"
  by (simp add: bind_io_def split: prod.splits sum.splits)

lemmas db_simps = db_respond db_try db_bind findById_def findUser_def save_def insert_new_def
  remove_def find_all_sorted_def throw_def return_io_def run_def db_of_def Let_def

lemma create_post_change: "change b d (db_of (run (create_post cx rq) d))"
  by (auto simp: create_post_def db_simps split: option.splits intro: change.intros)

lemma list_posts_change: "change b d (db_of (run (list_posts cx rq) d))"
  by (simp add: list_posts_def db_simps change_none)

lemma get_post_change: "change b d (db_of (run (get_post cx rq) d))"
  by (simp add: get_post_def db_simps change_none split: option.splits)

lemma delete_post_change: "change b d (db_of (run (delete_post cx rq) d))"
  by (auto simp: delete_post_def db_simps split: option.splits intro: change.intros)

lemma update_post_change: "change b d (db_of (run (update_post cx rq) d))"
  by (auto simp: update_post_def db_simps split: option.splits intro: change.intros)

lemma like_post_change: "change True d (db_of (run (like_post cx rq) d))"
  by (auto simp: like_post_def db_simps filter_empty_conv split: option.splits
      intro: change_none intro!: change_liked)

lemma unlike_post_change: "change b d (db_of (run (unlike_post cx rq) d))"
  by (auto simp: unlike_post_def db_simps split: option.splits intro: change.intros)

lemma add_comment_change: "change b d (db_of (run (add_comment cx rq) d))"
  by (auto simp: add_comment_def db_simps split: option.splits intro: change.intros)

lemma update_comment_change: "change b d (db_of (run (update_comment cx rq) d))"
  by (auto simp: update_comment_def db_simps
      dest!: update_map_db cast_comments_db split: option.splits prod.splits sum.splits
      intro: change.intros)

lemma delete_comment_change: "change b d (db_of (run (delete_comment cx rq) d))"
  by (auto simp: delete_comment_def db_simps
      dest!: delete_filter_db split: option.splits prod.splits sum.splits
      intro: change.intros)

lemma step_change: "change (r = LikePost) d (step r cx rq d)"
  unfolding step_def
  by (cases r) (simp_all add: create_post_change list_posts_change get_post_change
      delete_post_change update_post_change like_post_change unlike_post_change
      add_comment_change update_comment_change delete_comment_change)

section \<open>The like invariant\<close>

lemma store_ok_find:
  "store_ok d \<Longrightarrow> find (\<lambda>q. post_id q = k) d = Some p \<Longrightarrow> likes_ok p"
  by (auto simp: store_ok_def list_all_iff dest: find_in_set)

lemma found_distinct:
  "store_ok d \<Longrightarrow> find (\<lambda>q. post_id q = k) d = Some p \<Longrightarrow>
   distinct (map like_user (post_likes p))"
  using store_ok_find[of d k p] by (simp add: likes_ok_def)

lemma store_ok_replace: "store_ok d \<Longrightarrow> likes_ok p' \<Longrightarrow> store_ok (replace p' d)"
  by (induction d) (auto simp: store_ok_def)

lemma store_ok_filter: "store_ok d \<Longrightarrow> store_ok (filter P d)"
  by (auto simp: store_ok_def list_all_iff)

lemma store_ok_snoc: "store_ok (d @ [p]) = (store_ok d \<and> likes_ok p)"
  by (auto simp: store_ok_def)

lemma likes_ok_upd:
  "likes_ok (p\<lparr>post_text := t\<rparr>) = likes_ok p"
  "likes_ok (p\<lparr>post_comments := cs\<rparr>) = likes_ok p"
  "likes_ok (p\<lparr>post_likes := ls\<rparr>) = distinct (map like_user ls)"
  by (simp_all add: likes_ok_def)

lemma change_ok: "change b d d' \<Longrightarrow> store_ok d \<Longrightarrow> store_ok d'"
proof (induction rule: change.induct)
  case (change_liked k d p l)
  then show ?case
    using found_distinct[of d k p] by (auto simp: likes_ok_upd intro!: store_ok_replace)
next
  case (change_unliked k d p b i)
  then show ?case
    using found_distinct[of d k p]
    by (auto simp: likes_ok_upd intro!: store_ok_replace distinct_splice1)
next
  case (change_text k d p b t)
  then show ?case
    using store_ok_find[of d k p] by (auto simp: likes_ok_upd intro!: store_ok_replace)
next
  case (change_comments k d p b cs)
  then show ?case
    using store_ok_find[of d k p] by (auto simp: likes_ok_upd intro!: store_ok_replace)
qed (auto simp: store_ok_snoc store_ok_filter likes_ok_def)

lemma entries_replace:
  "find (\<lambda>q. post_id q = k) d = Some p \<Longrightarrow> post_id p' = post_id p \<Longrightarrow>
   set (post_likes p') \<subseteq> set (post_likes p) \<Longrightarrow>
   set (like_entries (replace p' d)) \<subseteq> set (like_entries d)"
proof (induction d)
  case Nil
  then show ?case by simp
next
  case (Cons q d)
  show ?case
  proof (cases "post_id q = k")
    case True
    with Cons.prems have "q = p" by simp
    with Cons.prems True show ?thesis by (auto simp: like_entries_def)
  next
    case False
    with Cons.prems have f: "find (\<lambda>q. post_id q = k) d = Some p" by simp
    have "post_id p = k" using find_post_id[OF f] .
    with False Cons.prems have "replace p' (q # d) = q # replace p' d" by simp
    with Cons.IH[OF f Cons.prems(2,3)] show ?thesis by (auto simp: like_entries_def)
  qed
qed

lemma change_entries:
  "change b d d' \<Longrightarrow> \<not> b \<Longrightarrow> set (like_entries d') \<subseteq> set (like_entries d)"
proof (induction rule: change.induct)
  case (change_unliked k d p b i)
  then show ?case
    using entries_replace[of k d p "p\<lparr>post_likes := splice1 i (post_likes p)\<rparr>"]
      set_splice1[of i "post_likes p"] by simp
next
  case (change_text k d p b t)
  then show ?case using entries_replace[of k d p "p\<lparr>post_text := t\<rparr>"] by simp
next
  case (change_comments k d p b cs)
  then show ?case using entries_replace[of k d p "p\<lparr>post_comments := cs\<rparr>"] by simp
qed (auto simp: like_entries_def)

lemma reachable_ok: "reachable d \<Longrightarrow> store_ok d"
proof (induction rule: reachable.induct)
  case reachable_init
  show ?case by (simp add: store_ok_def)
next
  case (reachable_step d r cx rq)
  then show ?case using change_ok[OF step_change] by blast
qed

section \<open>The claims\<close>

text \<open>
  C8. List-posts responds with every post of the store, ordered by creation timestamp,
  newest first: the response body is a rearrangement of the whole collection (nothing
  filtered, nothing cut off) in which no post precedes a newer one, and the store is
  left as it was.
\<close>

theorem list_posts_all_newest_first:
  "response_of (run (list_posts cx rq) d) = Some (Json 200 (Posts (sort_desc d)))
   \<and> sorted_wrt (\<lambda>a b. post_date b \<le> post_date a) (sort_desc d)
   \<and> mset (sort_desc d) = mset d
   \<and> db_of (run (list_posts cx rq) d) = d"
  by (simp add: list_posts_def io_defs out_defs sorted_sort_desc mset_sort_desc)

text \<open>
  C2. When the post identifier of a request is not a well-formed store reference, every
  handler that looks the post up (get, delete and update post, like, unlike, add, update
  and delete comment) answers with the not-found response, 404 with the single message
  "Post not found", and never with the server error. The three handlers that validate
  the body reach the lookup once the text has passed validation; before that they answer
  400 with the field errors.
\<close>

theorem malformed_post_id_not_found:
  assumes "cast_oid cx (post_id_param rq) = None"
  shows "response_of (run (get_post cx rq) d) = Some not_found
       \<and> response_of (run (delete_post cx rq) d) = Some not_found
       \<and> response_of (run (like_post cx rq) d) = Some not_found
       \<and> response_of (run (unlike_post cx rq) d) = Some not_found
       \<and> response_of (run (delete_comment cx rq) d) = Some not_found
       \<and> response_of (run (update_post cx rq) d) =
           (if validationResult rq = [] then Some not_found
            else Some (Json 400 (Errors (validationResult rq))))
       \<and> response_of (run (add_comment cx rq) d) =
           (if validationResult rq = [] then Some not_found
            else Some (Json 400 (Errors (validationResult rq))))
       \<and> response_of (run (update_comment cx rq) d) =
           (if validationResult rq = [] then Some not_found
            else Some (Json 400 (Errors (validationResult rq))))"
  using assms
  by (simp add: get_post_def delete_post_def like_post_def unlike_post_def delete_comment_def
      update_post_def add_comment_def update_comment_def io_defs out_defs)

theorem malformed_post_id_not_found_witness:
  "cast_oid (ex_ctx like_e5 4000) (post_id_param ((ex_req bob ''edited'')\<lparr>post_id_param := ''not-an-id''\<rparr>)) = None
   \<and> response_of (run (get_post (ex_ctx like_e5 4000) ((ex_req bob ''edited'')\<lparr>post_id_param := ''not-an-id''\<rparr>)) ex_db)
       = Some (Json 404 (Msg ''Post not found''))
   \<and> response_of (run (update_comment (ex_ctx like_e5 4000) ((ex_req bob ''edited'')\<lparr>post_id_param := ''not-an-id''\<rparr>)) ex_db)
       = Some (Json 404 (Msg ''Post not found''))
   \<and> response_of (run (add_comment (ex_ctx like_e5 4000) ((ex_req bob ''edited'')\<lparr>post_id_param := ''not-an-id''\<rparr>)) ex_db)
       \<noteq> Some server_error"
proof -
  let ?cx = "ex_ctx like_e5 4000"
  let ?rq = "(ex_req bob ''edited'')\<lparr>post_id_param := ''not-an-id''\<rparr>"
  have h: "cast_oid ?cx (post_id_param ?rq) = None"
    by (simp add: ex_ctx_def ex_cast_bad)
  have v: "validationResult ?rq = []"
    by (simp add: ex_defs)
  show ?thesis
    using malformed_post_id_not_found[OF h, of ex_db] h v
    by (simp add: not_found_def server_error_def)
qed

text \<open>
  C10. A like that fails with "already liked" and an unlike that fails with "not yet
  liked" return before any save: the store is exactly as it was loaded, and the only
  effect of the request is the one error response.
\<close>

theorem failed_like_unlike_no_save:
  "(response_of (run (like_post cx rq) d) = Some (Json 400 (Msg ''Post already liked'')) \<longrightarrow>
      db_of (run (like_post cx rq) d) = d
    \<and> log_of (run (like_post cx rq) d) = [Sent (Json 400 (Msg ''Post already liked''))])
   \<and> (response_of (run (unlike_post cx' rq') d') = Some (Json 400 (Msg ''Post has not yet been liked'')) \<longrightarrow>
      db_of (run (unlike_post cx' rq') d') = d'
    \<and> log_of (run (unlike_post cx' rq') d') = [Sent (Json 400 (Msg ''Post has not yet been liked''))])"
  by (auto simp: like_post_def unlike_post_def io_defs out_defs not_found_def server_error_def Let_def
      split: option.splits if_splits)

theorem failed_like_unlike_no_save_witness:
  "response_of (run (like_post (ex_ctx like_e5 4000) (ex_req bob ''x'')) ex_db)
     = Some (Json 400 (Msg ''Post already liked''))
   \<and> db_of (run (like_post (ex_ctx like_e5 4000) (ex_req bob ''x'')) ex_db) = ex_db
   \<and> log_of (run (like_post (ex_ctx like_e5 4000) (ex_req bob ''x'')) ex_db)
       = [Sent (Json 400 (Msg ''Post already liked''))]
   \<and> response_of (run (unlike_post (ex_ctx like_e5 4000) (ex_req ann ''x'')) ex_db)
       = Some (Json 400 (Msg ''Post has not yet been liked''))
   \<and> db_of (run (unlike_post (ex_ctx like_e5 4000) (ex_req ann ''x'')) ex_db) = ex_db
   \<and> log_of (run (unlike_post (ex_ctx like_e5 4000) (ex_req ann ''x'')) ex_db)
       = [Sent (Json 400 (Msg ''Post has not yet been liked''))]"
proof -
  let ?cx = "ex_ctx like_e5 4000"
  have l: "response_of (run (like_post ?cx (ex_req bob ''x'')) ex_db)
             = Some (Json 400 (Msg ''Post already liked''))"
    by (simp add: like_post_def io_defs out_defs ex_defs ex_cast_ids)
  have u: "response_of (run (unlike_post ?cx (ex_req ann ''x'')) ex_db)
             = Some (Json 400 (Msg ''Post has not yet been liked''))"
    by (simp add: unlike_post_def io_defs out_defs ex_defs ex_cast_ids ex_ids_distinct)
  show ?thesis
    using failed_like_unlike_no_save[of ?cx "ex_req bob ''x''" ex_db ?cx "ex_req ann ''x''" ex_db] l u
    by simp
qed

text \<open>
  C5. On a post the caller has liked, unlike removes exactly one entry, the first one in
  scan order whose author is the caller; the entries before and after it stay, in their
  order, and the shortened list is the response and is what a later lookup finds. On a
  post the caller has not liked, unlike fails with "not yet liked" and changes nothing.
\<close>

theorem unlike_removes_first:
  assumes "cast_oid cx (post_id_param rq) = Some k"
      and "find (\<lambda>q. post_id q = k) d = Some p"
  shows "(user_id rq \<in> like_user ` set (post_likes p) \<longrightarrow>
           (\<exists>ys l zs. post_likes p = ys @ l # zs \<and> like_user l = user_id rq
              \<and> user_id rq \<notin> like_user ` set ys
              \<and> response_of (run (unlike_post cx rq) d) = Some (Json 200 (Likes (ys @ zs)))
              \<and> db_of (run (unlike_post cx rq) d) = replace (p\<lparr>post_likes := ys @ zs\<rparr>) d
              \<and> find (\<lambda>q. post_id q = k) (db_of (run (unlike_post cx rq) d))
                    = Some (p\<lparr>post_likes := ys @ zs\<rparr>)))
       \<and> (user_id rq \<notin> like_user ` set (post_likes p) \<longrightarrow>
            response_of (run (unlike_post cx rq) d) = Some (Json 400 (Msg ''Post has not yet been liked''))
          \<and> db_of (run (unlike_post cx rq) d) = d)"
proof (intro conjI impI)
  assume m: "user_id rq \<in> like_user ` set (post_likes p)"
  then have ne: "filter (\<lambda>l. like_user l = user_id rq) (post_likes p) \<noteq> []"
    by (simp add: some_like_filter)
  from unlike_splice[OF m] obtain ys l zs where
    s: "post_likes p = ys @ l # zs" "like_user l = user_id rq" "user_id rq \<notin> like_user ` set ys"
       "splice1 (indexOf (user_id rq) (map like_user (post_likes p))) (post_likes p) = ys @ zs"
    by blast
  have r: "response_of (run (unlike_post cx rq) d) = Some (Json 200 (Likes (ys @ zs)))"
    using assms ne s(4) by (simp add: unlike_post_def io_defs out_defs Let_def)
  have b: "db_of (run (unlike_post cx rq) d) = replace (p\<lparr>post_likes := ys @ zs\<rparr>) d"
    using assms ne s(4) by (simp add: unlike_post_def io_defs out_defs Let_def)
  have f: "find (\<lambda>q. post_id q = k) (replace (p\<lparr>post_likes := ys @ zs\<rparr>) d)
             = Some (p\<lparr>post_likes := ys @ zs\<rparr>)"
    using find_replace[OF assms(2), of "p\<lparr>post_likes := ys @ zs\<rparr>"] find_post_id[OF assms(2)]
    by simp
  show "\<exists>ys l zs. post_likes p = ys @ l # zs \<and> like_user l = user_id rq
              \<and> user_id rq \<notin> like_user ` set ys
              \<and> response_of (run (unlike_post cx rq) d) = Some (Json 200 (Likes (ys @ zs)))
              \<and> db_of (run (unlike_post cx rq) d) = replace (p\<lparr>post_likes := ys @ zs\<rparr>) d
              \<and> find (\<lambda>q. post_id q = k) (db_of (run (unlike_post cx rq) d))
                    = Some (p\<lparr>post_likes := ys @ zs\<rparr>)"
    using s(1,2,3) r b f by metis
next
  assume m: "user_id rq \<notin> like_user ` set (post_likes p)"
  then have e: "filter (\<lambda>l. like_user l = user_id rq) (post_likes p) = []"
    by (simp add: no_like_filter)
  show "response_of (run (unlike_post cx rq) d) = Some (Json 400 (Msg ''Post has not yet been liked''))"
    using assms e by (simp add: unlike_post_def io_defs out_defs)
  show "db_of (run (unlike_post cx rq) d) = d"
    using assms e by (simp add: unlike_post_def io_defs out_defs)
qed

theorem unlike_removes_first_witness:
  "cast_oid (ex_ctx like_e5 4000) (post_id_param (ex_req bob ''x'')) = Some post_c3
   \<and> find (\<lambda>q. post_id q = post_c3) ex_db3 = Some ex_post3
   \<and> post_likes ex_post3 = [ex_like_ann, ex_like, ex_like_carol]
   \<and> user_id (ex_req bob ''x'') \<in> like_user ` set (post_likes ex_post3)
   \<and> response_of (run (unlike_post (ex_ctx like_e5 4000) (ex_req bob ''x'')) ex_db3)
       = Some (Json 200 (Likes [ex_like_ann, ex_like_carol]))
   \<and> db_of (run (unlike_post (ex_ctx like_e5 4000) (ex_req bob ''x'')) ex_db3)
       = [ex_post3\<lparr>post_likes := [ex_like_ann, ex_like_carol]\<rparr>]
   \<and> find (\<lambda>q. post_id q = post_c3)
         (db_of (run (unlike_post (ex_ctx like_e5 4000) (ex_req bob ''x'')) ex_db3))
       = Some (ex_post3\<lparr>post_likes := [ex_like_ann, ex_like_carol]\<rparr>)
   \<and> user_id (ex_req ann ''x'') \<notin> like_user ` set (post_likes ex_post)
   \<and> response_of (run (unlike_post (ex_ctx like_e5 4000) (ex_req ann ''x'')) ex_db)
       = Some (Json 400 (Msg ''Post has not yet been liked''))
   \<and> db_of (run (unlike_post (ex_ctx like_e5 4000) (ex_req ann ''x'')) ex_db) = ex_db"
proof -
  let ?cx = "ex_ctx like_e5 4000"
  let ?out = "run (unlike_post ?cx (ex_req bob ''x'')) ex_db3"
  have c: "cast_oid ?cx (post_id_param (ex_req bob ''x'')) = Some post_c3"
          "cast_oid ?cx (post_id_param (ex_req ann ''x'')) = Some post_c3"
    by (simp_all add: ex_ctx_def ex_req_def ex_cast_ids)
  have f3: "find (\<lambda>q. post_id q = post_c3) ex_db3 = Some ex_post3"
    by (simp add: ex_db3_def ex_post3_def ex_post_def)
  have l3: "post_likes ex_post3 = [ex_like_ann, ex_like, ex_like_carol]"
    by (simp add: ex_post3_def)
  have ub: "user_id (ex_req bob ''x'') = bob" by (simp add: ex_req_def)
  have us: "like_user ex_like_ann \<noteq> bob" "like_user ex_like = bob" "like_user ex_like_carol \<noteq> bob"
    by (simp_all add: ex_like_ann_def ex_like_def ex_like_carol_def ex_ids carol_def)
  have b: "user_id (ex_req bob ''x'') \<in> like_user ` set (post_likes ex_post3)"
    by (simp add: l3 ub us)
  have a: "user_id (ex_req ann ''x'') \<notin> like_user ` set (post_likes ex_post)"
    by (simp add: ex_defs ex_ids_distinct)
  from unlike_removes_first[OF c(1) f3] b obtain ys l zs where
    s: "post_likes ex_post3 = ys @ l # zs" "like_user l = user_id (ex_req bob ''x'')"
       "user_id (ex_req bob ''x'') \<notin> like_user ` set ys"
    and r: "response_of ?out = Some (Json 200 (Likes (ys @ zs)))"
           "db_of ?out = replace (ex_post3\<lparr>post_likes := ys @ zs\<rparr>) ex_db3"
           "find (\<lambda>q. post_id q = post_c3) (db_of ?out) = Some (ex_post3\<lparr>post_likes := ys @ zs\<rparr>)"
    by blast
  have ys: "ys = [ex_like_ann]"
  proof (cases ys)
    case Nil
    with s(1,2) l3 ub us show ?thesis by simp
  next
    case (Cons y ys')
    with s(1) l3 have y: "y = ex_like_ann" and t: "ys' @ l # zs = [ex_like, ex_like_carol]"
      by simp_all
    show ?thesis
    proof (cases ys')
      case Nil
      with Cons y show ?thesis by simp
    next
      case (Cons y' ys'')
      with t have "y' = ex_like" by simp
      with s(3) ub us \<open>ys = y # ys'\<close> Cons show ?thesis by simp
    qed
  qed
  with s(1) l3 have zs: "zs = [ex_like_carol]" by simp
  have rp: "replace (ex_post3\<lparr>post_likes := [ex_like_ann, ex_like_carol]\<rparr>) ex_db3
              = [ex_post3\<lparr>post_likes := [ex_like_ann, ex_like_carol]\<rparr>]"
    by (simp add: ex_db3_def)
  have n: "response_of (run (unlike_post ?cx (ex_req ann ''x'')) ex_db)
             = Some (Json 400 (Msg ''Post has not yet been liked''))
           \<and> db_of (run (unlike_post ?cx (ex_req ann ''x'')) ex_db) = ex_db"
    using unlike_removes_first[OF c(2) ex_find] a by blast
  show ?thesis
    using c(1) f3 l3 b r ys zs rp a n by simp
qed

text \<open>
  C4. When the caller has no like on the post, a like followed by an unlike of the same
  caller both succeed, and the unlike returns the like list to what it was before the
  like, the same entries in the same order; the whole store is as before.
\<close>

theorem like_then_unlike_restores:
  assumes "cast_oid cx (post_id_param rq) = Some k"
      and "cast_oid cx' (post_id_param rq) = Some k"
      and "find (\<lambda>q. post_id q = k) d = Some p"
      and "user_id rq \<notin> like_user ` set (post_likes p)"
  shows "response_of (run (like_post cx rq) d)
           = Some (Json 200 (Likes (\<lparr>like_id = new_oid cx, like_user = user_id rq\<rparr> # post_likes p)))
       \<and> response_of (run (unlike_post cx' rq) (db_of (run (like_post cx rq) d)))
           = Some (Json 200 (Likes (post_likes p)))
       \<and> db_of (run (unlike_post cx' rq) (db_of (run (like_post cx rq) d))) = d"
proof -
  let ?nl = "\<lparr>like_id = new_oid cx, like_user = user_id rq\<rparr>"
  let ?p' = "p\<lparr>post_likes := ?nl # post_likes p\<rparr>"
  have e: "filter (\<lambda>l. like_user l = user_id rq) (post_likes p) = []"
    using assms(4) by (simp add: no_like_filter)
  have r1: "response_of (run (like_post cx rq) d) = Some (Json 200 (Likes (?nl # post_likes p)))"
    using assms(1,3) e by (simp add: like_post_def io_defs out_defs)
  have d1: "db_of (run (like_post cx rq) d) = replace ?p' d"
    using assms(1,3) e by (simp add: like_post_def io_defs out_defs)
  have k: "post_id p = k" using find_post_id[OF assms(3)] .
  have f1: "find (\<lambda>q. post_id q = k) (replace ?p' d) = Some ?p'"
    using find_replace[OF assms(3), of ?p'] k by simp
  have r2: "response_of (run (unlike_post cx' rq) (replace ?p' d)) = Some (Json 200 (Likes (post_likes p)))"
    using assms(2) f1 by (simp add: unlike_post_def io_defs out_defs splice1_def)
  have d2: "db_of (run (unlike_post cx' rq) (replace ?p' d)) = replace p (replace ?p' d)"
    using assms(2) f1 by (simp add: unlike_post_def io_defs out_defs splice1_def)
  have "replace p (replace ?p' d) = d"
    using replace_replace[OF assms(3), of ?p'] k by simp
  with r1 r2 d1 d2 show ?thesis by simp
qed

theorem like_then_unlike_restores_witness:
  "cast_oid (ex_ctx like_e5 4000) (post_id_param (ex_req ann ''x'')) = Some post_c3
   \<and> cast_oid (ex_ctx like_e5 5000) (post_id_param (ex_req ann ''x'')) = Some post_c3
   \<and> find (\<lambda>q. post_id q = post_c3) ex_db = Some ex_post
   \<and> user_id (ex_req ann ''x'') \<notin> like_user ` set (post_likes ex_post)
   \<and> response_of (run (like_post (ex_ctx like_e5 4000) (ex_req ann ''x'')) ex_db)
       = Some (Json 200 (Likes [\<lparr>like_id = like_e5, like_user = ann\<rparr>, ex_like]))
   \<and> response_of (run (unlike_post (ex_ctx like_e5 5000) (ex_req ann ''x''))
         (db_of (run (like_post (ex_ctx like_e5 4000) (ex_req ann ''x'')) ex_db)))
       = Some (Json 200 (Likes [ex_like]))
   \<and> db_of (run (unlike_post (ex_ctx like_e5 5000) (ex_req ann ''x''))
         (db_of (run (like_post (ex_ctx like_e5 4000) (ex_req ann ''x'')) ex_db))) = ex_db"
proof -
  have c: "cast_oid (ex_ctx like_e5 4000) (post_id_param (ex_req ann ''x'')) = Some post_c3"
          "cast_oid (ex_ctx like_e5 5000) (post_id_param (ex_req ann ''x'')) = Some post_c3"
    by (simp_all add: ex_ctx_def ex_req_def ex_cast_ids)
  have a: "user_id (ex_req ann ''x'') \<notin> like_user ` set (post_likes ex_post)"
    by (simp add: ex_defs ex_ids_distinct)
  have n: "new_oid (ex_ctx like_e5 4000) = like_e5" "user_id (ex_req ann ''x'') = ann"
          "post_likes ex_post = [ex_like]"
    by (simp_all add: ex_ctx_def ex_req_def ex_post_def)
  show ?thesis
    using like_then_unlike_restores[OF c(1) c(2) ex_find a] c ex_find a n
    by simp
qed

text \<open>
  C6. For an existing post, a non-empty text and a caller the user directory knows,
  add-comment puts exactly one new comment at the front of the post's comment list. The
  comment carries the given text, the caller's name and avatar as the directory has
  them, and the caller's identifier; the comments that were there follow it unchanged
  and in order, so the list is longer by one. The new list is the response and is what a
  later lookup finds.
\<close>

theorem add_comment_prepends:
  assumes "body_text rq = Some t" and "t \<noteq> []"
      and "cast_oid cx (post_id_param rq) = Some k"
      and "find (\<lambda>q. post_id q = k) d = Some p"
      and "find_user cx (user_id rq) = Some u"
  shows "\<exists>cs. cs = \<lparr>comment_id = new_oid cx, comment_text = t, comment_name = user_name u,
                     comment_avatar = user_avatar u, comment_user = user_id rq,
                     comment_date = now cx\<rparr> # post_comments p
          \<and> length cs = length (post_comments p) + 1
          \<and> response_of (run (add_comment cx rq) d) = Some (Json 200 (Comments cs))
          \<and> db_of (run (add_comment cx rq) d) = replace (p\<lparr>post_comments := cs\<rparr>) d
          \<and> find (\<lambda>q. post_id q = k) (db_of (run (add_comment cx rq) d))
               = Some (p\<lparr>post_comments := cs\<rparr>)"
proof -
  let ?cs = "\<lparr>comment_id = new_oid cx, comment_text = t, comment_name = user_name u,
               comment_avatar = user_avatar u, comment_user = user_id rq,
               comment_date = now cx\<rparr> # post_comments p"
  note v = valid_text[OF assms(1,2)]
  have r: "response_of (run (add_comment cx rq) d) = Some (Json 200 (Comments ?cs))"
    using v assms(3,4,5) by (simp add: add_comment_def io_defs out_defs Let_def)
  have b: "db_of (run (add_comment cx rq) d) = replace (p\<lparr>post_comments := ?cs\<rparr>) d"
    using v assms(3,4,5) by (simp add: add_comment_def io_defs out_defs Let_def)
  have f: "find (\<lambda>q. post_id q = k) (replace (p\<lparr>post_comments := ?cs\<rparr>) d)
             = Some (p\<lparr>post_comments := ?cs\<rparr>)"
    using find_replace[OF assms(4), of "p\<lparr>post_comments := ?cs\<rparr>"] find_post_id[OF assms(4)]
    by simp
  show ?thesis using r b f by simp
qed

theorem add_comment_prepends_witness:
  "body_text (ex_req bob ''nice'') = Some ''nice'' \<and> ''nice'' \<noteq> []
   \<and> cast_oid (ex_ctx like_e5 4000) (post_id_param (ex_req bob ''nice'')) = Some post_c3
   \<and> find (\<lambda>q. post_id q = post_c3) ex_db = Some ex_post
   \<and> find_user (ex_ctx like_e5 4000) (user_id (ex_req bob ''nice''))
       = Some \<lparr>user_name = ''Bob'', user_avatar = ''bob.png''\<rparr>
   \<and> response_of (run (add_comment (ex_ctx like_e5 4000) (ex_req bob ''nice'')) ex_db)
       = Some (Json 200 (Comments
           [\<lparr>comment_id = like_e5, comment_text = ''nice'', comment_name = ''Bob'',
              comment_avatar = ''bob.png'', comment_user = bob, comment_date = 4000\<rparr>,
            ex_comment]))"
proof -
  let ?cx = "ex_ctx like_e5 4000"
  let ?rq = "ex_req bob ''nice''"
  have h1: "body_text ?rq = Some ''nice''" by (simp add: ex_req_def)
  have h2: "''nice'' \<noteq> []" by simp
  have h3: "cast_oid ?cx (post_id_param ?rq) = Some post_c3"
    by (simp add: ex_ctx_def ex_req_def ex_cast_ids)
  have h5: "find_user ?cx (user_id ?rq) = Some \<lparr>user_name = ''Bob'', user_avatar = ''bob.png''\<rparr>"
    by (simp add: ex_ctx_def ex_req_def ex_dir_def ex_ids_distinct)
  have n: "new_oid ?cx = like_e5" "now ?cx = 4000" "user_id ?rq = bob"
          "post_comments ex_post = [ex_comment]"
    by (simp_all add: ex_ctx_def ex_req_def ex_post_def)
  show ?thesis
    using add_comment_prepends[OF h1 h2 h3 ex_find h5] h1 h3 ex_find h5 n
    by simp
qed



text \<open>
  C9. On an existing post, when the comment identifier of the request equals the
  identifier of none of the post's comments (it is compared as a string, so a malformed
  one is such an identifier), delete-comment and update-comment (with a text that passes
  validation) answer 200 with the comment list as it was, no not-found response is
  produced, and the store is unchanged.
\<close>

theorem unmatched_comment_id_succeeds:
  assumes "cast_oid cx (post_id_param rq) = Some k"
      and "find (\<lambda>q. post_id q = k) d = Some p"
      and "comment_id_param rq \<notin> comment_id ` set (post_comments p)"
  shows "response_of (run (delete_comment cx rq) d) = Some (Json 200 (Comments (post_comments p)))
       \<and> db_of (run (delete_comment cx rq) d) = d
       \<and> (validationResult rq = [] \<longrightarrow>
            response_of (run (update_comment cx rq) d) = Some (Json 200 (Comments (post_comments p)))
          \<and> db_of (run (update_comment cx rq) d) = d)"
proof -
  note r = replace_found_same[OF assms(2)]
  show ?thesis
    using assms(1,2) r
    by (simp add: delete_comment_def update_comment_def io_defs out_defs Let_def
        update_map_no_match[OF assms(3)] delete_filter_no_match[OF assms(3)] cast_comments_docs)
qed

theorem unmatched_comment_id_succeeds_witness:
  "cast_oid (ex_ctx like_e5 4000)
      (post_id_param ((ex_req bob ''edited'')\<lparr>comment_id_param := ''not-an-id''\<rparr>)) = Some post_c3
   \<and> find (\<lambda>q. post_id q = post_c3) ex_db = Some ex_post
   \<and> comment_id_param ((ex_req bob ''edited'')\<lparr>comment_id_param := ''not-an-id''\<rparr>)
       \<notin> comment_id ` set (post_comments ex_post)
   \<and> validationResult ((ex_req bob ''edited'')\<lparr>comment_id_param := ''not-an-id''\<rparr>) = []
   \<and> response_of (run (delete_comment (ex_ctx like_e5 4000)
         ((ex_req bob ''edited'')\<lparr>comment_id_param := ''not-an-id''\<rparr>)) ex_db)
       = Some (Json 200 (Comments [ex_comment]))
   \<and> db_of (run (delete_comment (ex_ctx like_e5 4000)
         ((ex_req bob ''edited'')\<lparr>comment_id_param := ''not-an-id''\<rparr>)) ex_db) = ex_db
   \<and> response_of (run (update_comment (ex_ctx like_e5 4000)
         ((ex_req bob ''edited'')\<lparr>comment_id_param := ''not-an-id''\<rparr>)) ex_db)
       = Some (Json 200 (Comments [ex_comment]))
   \<and> db_of (run (update_comment (ex_ctx like_e5 4000)
         ((ex_req bob ''edited'')\<lparr>comment_id_param := ''not-an-id''\<rparr>)) ex_db) = ex_db"
proof -
  let ?cx = "ex_ctx like_e5 4000"
  let ?rq = "(ex_req bob ''edited'')\<lparr>comment_id_param := ''not-an-id''\<rparr>"
  have c: "cast_oid ?cx (post_id_param ?rq) = Some post_c3"
    by (simp add: ex_ctx_def ex_req_def ex_cast_ids)
  have m: "comment_id_param ?rq \<notin> comment_id ` set (post_comments ex_post)"
    by (simp add: ex_req_def ex_post_def ex_comment_def comment_d4_def)
  have v: "validationResult ?rq = []"
    by (simp add: ex_req_def validationResult_def)
  have n: "post_comments ex_post = [ex_comment]" by (simp add: ex_post_def)
  show ?thesis
    using unmatched_comment_id_succeeds[OF c ex_find m] c ex_find m v n
    by simp
qed

text \<open>
  C3. In every store that requests can produce from the empty collection, each post's
  like list has at most one entry per author identifier. There, a like by a caller who
  already has a like on the post fails with "already liked", changes nothing, and the
  caller's likes on the post number one. Like is the only request that adds a like
  entry: after any other request every like entry of the store was there before.
\<close>

theorem likes_unique_per_author:
  "(reachable d \<longrightarrow> list_all (\<lambda>q. distinct (map like_user (post_likes q))) d)
   \<and> (reachable d \<longrightarrow> cast_oid cx (post_id_param rq) = Some k \<longrightarrow>
        find (\<lambda>q. post_id q = k) d = Some p \<longrightarrow>
        user_id rq \<in> like_user ` set (post_likes p) \<longrightarrow>
          response_of (run (like_post cx rq) d) = Some (Json 400 (Msg ''Post already liked''))
        \<and> db_of (run (like_post cx rq) d) = d
        \<and> length (filter (\<lambda>l. like_user l = user_id rq) (post_likes p)) = 1)
   \<and> (r \<noteq> LikePost \<longrightarrow> set (like_entries (step r cx rq d)) \<subseteq> set (like_entries d))"
proof (intro conjI impI)
  assume "reachable d"
  then show "list_all (\<lambda>q. distinct (map like_user (post_likes q))) d"
    using reachable_ok[of d] by (simp add: store_ok_def likes_ok_def[abs_def])
next
  assume re: "reachable d" and c: "cast_oid cx (post_id_param rq) = Some k"
    and f: "find (\<lambda>q. post_id q = k) d = Some p"
    and m: "user_id rq \<in> like_user ` set (post_likes p)"
  have ne: "filter (\<lambda>l. like_user l = user_id rq) (post_likes p) \<noteq> []"
    using m by (simp add: some_like_filter)
  show "response_of (run (like_post cx rq) d) = Some (Json 400 (Msg ''Post already liked''))"
    using c f ne by (simp add: like_post_def io_defs out_defs)
  show "db_of (run (like_post cx rq) d) = d"
    using c f ne by (simp add: like_post_def io_defs out_defs)
  show "length (filter (\<lambda>l. like_user l = user_id rq) (post_likes p)) = 1"
    using one_like_filter[OF found_distinct[OF reachable_ok[OF re] f] m] .
next
  assume "r \<noteq> LikePost"
  then show "set (like_entries (step r cx rq d)) \<subseteq> set (like_entries d)"
    using change_entries[OF step_change[of r d cx rq]] by simp
qed

theorem likes_unique_per_author_witness:
  "reachable ex_db
   \<and> list_all (\<lambda>q. distinct (map like_user (post_likes q))) ex_db
   \<and> cast_oid (ex_ctx like_e5 4000) (post_id_param (ex_req bob ''x'')) = Some post_c3
   \<and> find (\<lambda>q. post_id q = post_c3) ex_db = Some ex_post
   \<and> user_id (ex_req bob ''x'') \<in> like_user ` set (post_likes ex_post)
   \<and> response_of (run (like_post (ex_ctx like_e5 4000) (ex_req bob ''x'')) ex_db)
       = Some (Json 400 (Msg ''Post already liked''))
   \<and> db_of (run (like_post (ex_ctx like_e5 4000) (ex_req bob ''x'')) ex_db) = ex_db
   \<and> length (filter (\<lambda>l. like_user l = user_id (ex_req bob ''x'')) (post_likes ex_post)) = 1
   \<and> UnlikePost \<noteq> LikePost
   \<and> set (like_entries (step UnlikePost (ex_ctx like_e5 4000) (ex_req bob ''x'') ex_db))
       \<subseteq> set (like_entries ex_db)"
proof -
  let ?cx = "ex_ctx like_e5 4000"
  have c: "cast_oid ?cx (post_id_param (ex_req bob ''x'')) = Some post_c3"
    by (simp add: ex_ctx_def ex_req_def ex_cast_ids)
  have b: "user_id (ex_req bob ''x'') \<in> like_user ` set (post_likes ex_post)"
    by (simp add: ex_defs)
  have u: "UnlikePost \<noteq> LikePost" by simp
  show ?thesis
    using likes_unique_per_author[of ex_db ?cx "ex_req bob ''x''" post_c3 ex_post UnlikePost]
      ex_db_reachable c ex_find b u
    by blast
qed

text \<open>
  C1. What the handlers do when the matched comment belongs to another author, at the
  example store: Bob asks to delete, and to update, Ann's comment on Ann's post. In both
  handlers the 401 response is sent from inside the array callback, and the handler
  goes on. Delete-comment keeps the comment (the callback's result is truthy), saves the
  post and then tries to send the 200 response with the comment list; that send and the
  500 of the catch block fail because a response has been sent. Update-comment puts the
  response object in the comment's place in the new array; when the schema rejects it,
  the save throws and the 500 of the catch block fails in the same way, and when the
  schema casts it to a comment \<open>c\<close>, the post is saved with \<open>c\<close> in place of Ann's
  comment.
\<close>

theorem comment_authorization_does_not_abort:
  "run (delete_comment (ex_ctx like_e5 4000) (ex_req bob ''x'')) ex_db
     = (Inl HeadersSent,
        \<lparr>db = ex_db,
         log = [Sent unauthorized, Saved ex_post,
                SendFailed (Json 200 (Comments [ex_comment])), SendFailed server_error]\<rparr>)
   \<and> run (update_comment (ex_ctx like_e5 4000) (ex_req bob ''edited'')) ex_db
     = (Inl HeadersSent,
        \<lparr>db = ex_db, log = [Sent unauthorized, SendFailed server_error]\<rparr>)
   \<and> run (update_comment ((ex_ctx like_e5 4000)\<lparr>res_as_comment := Some c\<rparr>) (ex_req bob ''edited'')) ex_db
     = (Inl HeadersSent,
        \<lparr>db = [ex_post\<lparr>post_comments := [c]\<rparr>],
         log = [Sent unauthorized, Saved (ex_post\<lparr>post_comments := [c]\<rparr>),
                SendFailed (Json 200 (Comments [c])), SendFailed server_error]\<rparr>)"
  by (simp add: delete_comment_def update_comment_def io_defs run_def ex_defs ex_cast_ids
      ex_ids_distinct Let_def)

end
